theory Spec2Isabelle
  imports Main "HOL-Library.Sublist"
begin

section \<open>Data model\<close>

text \<open>
  The object handed to \<open>fileStatus\<close> is one element of the array the engine's
  \<open>repo.getStatus()\<close> resolves to. The scripts use eight of its methods: \<open>path()\<close> and
  the seven predicates \<open>isNew()\<close>, \<open>isModified()\<close>, \<open>isRenamed()\<close>, \<open>isIgnored()\<close>,
  \<open>isDeleted()\<close>, \<open>isConflicted()\<close>, \<open>inIndex()\<close>. Each predicate is only ever used as the
  condition of an \<open>if\<close>, so a field holds the truth value the condition sees.
\<close>

record StatusFile =
  path :: string
  isNew :: bool
  isModified :: bool
  isRenamed :: bool
  isIgnored :: bool
  isDeleted :: bool
  isConflicted :: bool
  inIndex :: bool

text \<open>
  The object literal \<open>{ path: ..., status: ... }\<close> built by \<open>status\<close>. The field names carry
  a prefix because \<open>path\<close> is the accessor of the descriptor and \<open>status\<close> the name of the
  function.
\<close>

record StatusEntry =
  entry_path :: string
  entry_status :: string

text \<open>
  The repository object, as far as \<open>status\<close> uses it: the outcome of awaiting
  \<open>repo.getStatus()\<close>, which is either a rejection (\<open>Inl\<close>) or the array of descriptors
  (\<open>Inr\<close>), in the order the engine enumerated them.
\<close>

record 'e Repository =
  getStatus :: "'e + StatusFile list"

section \<open>The classifier\<close>

text \<open>
  \<open>src/src/index.js\<close>, lines 53-78. The local variable \<open>result\<close> starts as the empty
  string and is rebound by each of the seven \<open>if\<close> statements in turn.
\<close>

definition fileStatus :: "StatusFile \<Rightarrow> string" where
  "fileStatus file =
     (let result = '''';
          result = (if isNew file then result @ ''A'' else result);
          result = (if isModified file then result @ ''M'' else result);
          result = (if isRenamed file then result @ ''R'' else result);
          result = (if isIgnored file then result @ ''?'' else result);
          result = (if isDeleted file then result @ ''D'' else result);
          result = (if isConflicted file then result @ ''C'' else result);
          result = (if inIndex file then result @ ''I'' else result)
      in result)"

text \<open>\<open>src/src/index.js\<close>, lines 280-305: the second script's copy.\<close>

definition fileStatus_280 :: "StatusFile \<Rightarrow> string" where
  "fileStatus_280 file =
     (let result = '''';
          result = (if isNew file then result @ ''A'' else result);
          result = (if isModified file then result @ ''M'' else result);
          result = (if isRenamed file then result @ ''R'' else result);
          result = (if isIgnored file then result @ ''?'' else result);
          result = (if isDeleted file then result @ ''D'' else result);
          result = (if isConflicted file then result @ ''C'' else result);
          result = (if inIndex file then result @ ''I'' else result)
      in result)"

text \<open>\<open>src/src/index.js\<close>, lines 447-472: the third script's copy.\<close>

definition fileStatus_447 :: "StatusFile \<Rightarrow> string" where
  "fileStatus_447 file =
     (let result = '''';
          result = (if isNew file then result @ ''A'' else result);
          result = (if isModified file then result @ ''M'' else result);
          result = (if isRenamed file then result @ ''R'' else result);
          result = (if isIgnored file then result @ ''?'' else result);
          result = (if isDeleted file then result @ ''D'' else result);
          result = (if isConflicted file then result @ ''C'' else result);
          result = (if inIndex file then result @ ''I'' else result)
      in result)"

text \<open>\<open>src/unnamed/part_000\<close>, lines 53-78: the copy of the earliest script.\<close>

definition fileStatus_part_000 :: "StatusFile \<Rightarrow> string" where
  "fileStatus_part_000 file =
     (let result = '''';
          result = (if isNew file then result @ ''A'' else result);
          result = (if isModified file then result @ ''M'' else result);
          result = (if isRenamed file then result @ ''R'' else result);
          result = (if isIgnored file then result @ ''?'' else result);
          result = (if isDeleted file then result @ ''D'' else result);
          result = (if isConflicted file then result @ ''C'' else result);
          result = (if inIndex file then result @ ''I'' else result)
      in result)"

section \<open>The status report\<close>

text \<open>
  \<open>src/src/index.js\<close>, lines 85-88. \<open>await repo.getStatus()\<close> either rejects, and then
  the promise returned by \<open>status\<close> rejects with the same reason, or yields the array
  \<open>statuses\<close>, which \<open>Array.prototype.map\<close> walks from index 0 upwards.
\<close>

definition status :: "'e Repository \<Rightarrow> 'e + StatusEntry list" where
  "status repo =
     (case getStatus repo of
        Inl e \<Rightarrow> Inl e
      | Inr statuses \<Rightarrow>
          Inr (map (\<lambda>file. \<lparr>entry_path = path file, entry_status = fileStatus file\<rparr>) statuses))"

text \<open>\<open>src/unnamed/part_000\<close>, lines 80-83, which calls that script's own classifier.\<close>

definition status_part_000 :: "'e Repository \<Rightarrow> 'e + StatusEntry list" where
  "status_part_000 repo =
     (case getStatus repo of
        Inl e \<Rightarrow> Inl e
      | Inr statuses \<Rightarrow>
          Inr (map (\<lambda>file. \<lparr>entry_path = path file, entry_status = fileStatus_part_000 file\<rparr>)
                 statuses))"

section \<open>The specification's reading of the classifier\<close>

text \<open>
  The seven flags of a descriptor in the order the specification lists them, and the code
  character of each, position by position.
\<close>

definition spec_flags :: "StatusFile \<Rightarrow> bool list" where
  "spec_flags d =
     [isNew d, isModified d, isRenamed d, isIgnored d, isDeleted d, isConflicted d, inIndex d]"

definition spec_codes :: string where
  "spec_codes = ''AMR?DCI''"

text \<open>
  The specification's classifier: walk the flags in the fixed order and append the
  character of every flag that is true.
\<close>

definition spec_fileStatus :: "StatusFile \<Rightarrow> string" where
  "spec_fileStatus d =
     foldl (\<lambda>result (flag, c). if flag then result @ [c] else result) ''''
       (zip (spec_flags d) spec_codes)"

text \<open>The number of flags of a descriptor that are true.\<close>

definition true_flag_count :: "StatusFile \<Rightarrow> nat" where
  "true_flag_count d = length (filter (\<lambda>flag. flag) (spec_flags d))"

text \<open>
  Flag inclusion between two descriptors: every flag that is true in the first is true
  in the second.
\<close>

definition flags_le :: "StatusFile \<Rightarrow> StatusFile \<Rightarrow> bool" where
  "flags_le d1 d2 \<longleftrightarrow>
     (isNew d1 \<longrightarrow> isNew d2) \<and> (isModified d1 \<longrightarrow> isModified d2) \<and>
     (isRenamed d1 \<longrightarrow> isRenamed d2) \<and> (isIgnored d1 \<longrightarrow> isIgnored d2) \<and>
     (isDeleted d1 \<longrightarrow> isDeleted d2) \<and> (isConflicted d1 \<longrightarrow> isConflicted d2) \<and>
     (inIndex d1 \<longrightarrow> inIndex d2)"

text \<open>The descriptor of a path with no flag set, from which the examples are built.\<close>

definition no_flags :: "string \<Rightarrow> StatusFile" where
  "no_flags p =
     \<lparr>path = p, isNew = False, isModified = False, isRenamed = False, isIgnored = False,
      isDeleted = False, isConflicted = False, inIndex = False\<rparr>"

section \<open>The classifier as JavaScript runs it\<close>

text \<open>
  The record \<open>StatusFile\<close> holds what a well-formed descriptor answers. JavaScript itself
  accepts any value as the argument \<open>file\<close>, a method call can throw, and a function can
  read and write the state of the process around it (environment, console, engine, file
  system). This second model of lines 53-78 keeps all of that: \<open>'s\<close> is the state of the
  process, a computation takes the state and returns either the thrown error or a value,
  together with the state it leaves.
\<close>

text \<open>
  What can be thrown while \<open>fileStatus\<close> runs: the language's \<open>TypeError\<close> (a property read
  on \<open>undefined\<close> or \<open>null\<close>, a call of something that is not a function), or whatever a
  method of the engine throws.
\<close>

datatype js_error = TypeError | EngineError string

text \<open>
  JavaScript values. A number is an integer here, which is what a bit mask of the engine
  is. A function is a closure over its own data: it takes the state and returns like any
  computation. An object is its list of properties.
\<close>

datatype 's js_value =
    Undefined
  | Null
  | Boolean bool
  | Number int
  | String string
  | Function "'s \<Rightarrow> (js_error + 's js_value) \<times> 's"
  | Object "(string \<times> 's js_value) list"

type_synonym ('s, 'a) js = "'s \<Rightarrow> (js_error + 'a) \<times> 's"

text \<open>A finished statement, and one statement after another: a throw skips the rest.\<close>

definition js_return :: "'a \<Rightarrow> ('s, 'a) js" where
  "js_return x st = (Inr x, st)"

definition js_bind :: "('s, 'a) js \<Rightarrow> ('a \<Rightarrow> ('s, 'b) js) \<Rightarrow> ('s, 'b) js" where
  "js_bind m k st = (case m st of (Inl e, st') \<Rightarrow> (Inl e, st') | (Inr x, st') \<Rightarrow> k x st')"

text \<open>The truth value the condition of an \<open>if\<close> takes from a value.\<close>

fun truthy :: "'s js_value \<Rightarrow> bool" where
  "truthy Undefined = False"
| "truthy Null = False"
| "truthy (Boolean b) = b"
| "truthy (Number n) = (n \<noteq> 0)"
| "truthy (String s) = (s \<noteq> '''')"
| "truthy (Function f) = True"
| "truthy (Object props) = True"

text \<open>
  The expression \<open>file.name()\<close>. On an object whose property \<open>name\<close> is a function, the
  function runs. Every other case throws a \<open>TypeError\<close>: the property is missing or is not
  a function, or \<open>file\<close> is not an object at all (none of the method names used by the
  scripts is a property of the built-in prototypes).
\<close>

fun call_method :: "'s js_value \<Rightarrow> string \<Rightarrow> ('s, 's js_value) js" where
  "call_method (Object props) name st =
     (case map_of props name of
        Some (Function f) \<Rightarrow> f st
      | _ \<Rightarrow> (Inl TypeError, st))"
| "call_method file name st = (Inl TypeError, st)"

text \<open>
  \<open>src/src/index.js\<close>, lines 53-78, statement by statement: each \<open>if\<close> calls its method,
  takes the truth value of what the call returns, and appends to \<open>result\<close> or leaves it.
\<close>

definition fileStatus_js :: "'s js_value \<Rightarrow> ('s, string) js" where
  "fileStatus_js file =
     (let result = '''' in
      js_bind (call_method file ''isNew'') (\<lambda>c.
      let result = (if truthy c then result @ ''A'' else result) in
      js_bind (call_method file ''isModified'') (\<lambda>c.
      let result = (if truthy c then result @ ''M'' else result) in
      js_bind (call_method file ''isRenamed'') (\<lambda>c.
      let result = (if truthy c then result @ ''R'' else result) in
      js_bind (call_method file ''isIgnored'') (\<lambda>c.
      let result = (if truthy c then result @ ''?'' else result) in
      js_bind (call_method file ''isDeleted'') (\<lambda>c.
      let result = (if truthy c then result @ ''D'' else result) in
      js_bind (call_method file ''isConflicted'') (\<lambda>c.
      let result = (if truthy c then result @ ''C'' else result) in
      js_bind (call_method file ''inIndex'') (\<lambda>c.
      let result = (if truthy c then result @ ''I'' else result) in
      js_return result))))))))"

text \<open>A method that returns a fixed value, throws nothing and leaves the state alone.\<close>

definition getter :: "'s js_value \<Rightarrow> 's js_value" where
  "getter v = Function (\<lambda>st. (Inr v, st))"

text \<open>
  Modelled from the spec: the class of the descriptor objects belongs to the engine and
  is not in the sources. Section 3 of the specification gives a descriptor a path and
  seven independent boolean flags and calls it immutable input: the object of a
  descriptor has the eight methods, and each returns its field.
\<close>

definition descriptor_object :: "StatusFile \<Rightarrow> 's js_value" where
  "descriptor_object d =
     Object [(''path'', getter (String (path d))),
             (''isNew'', getter (Boolean (isNew d))),
             (''isModified'', getter (Boolean (isModified d))),
             (''isRenamed'', getter (Boolean (isRenamed d))),
             (''isIgnored'', getter (Boolean (isIgnored d))),
             (''isDeleted'', getter (Boolean (isDeleted d))),
             (''isConflicted'', getter (Boolean (isConflicted d))),
             (''inIndex'', getter (Boolean (inIndex d)))]"

section \<open>Shared facts\<close>

text \<open>The four copies of the classifier have the same body.\<close>

lemma fileStatus_copies:
  "fileStatus_280 d = fileStatus d"
  "fileStatus_447 d = fileStatus d"
  "fileStatus_part_000 d = fileStatus d"
  by (simp_all only: fileStatus_def fileStatus_280_def fileStatus_447_def
      fileStatus_part_000_def)

text \<open>
  The seven rebindings of \<open>result\<close> amount to a concatenation of seven pieces, each
  either one character or empty.
\<close>

lemma fileStatus_pieces:
  "fileStatus d =
     (if isNew d then ''A'' else '''') @ (if isModified d then ''M'' else '''') @
     (if isRenamed d then ''R'' else '''') @ (if isIgnored d then ''?'' else '''') @
     (if isDeleted d then ''D'' else '''') @ (if isConflicted d then ''C'' else '''') @
     (if inIndex d then ''I'' else '''')"
  by (simp add: fileStatus_def Let_def)

lemma piece_subseq:
  "(a \<longrightarrow> b) \<Longrightarrow> subseq (if a then [c] else []) (if b then [c] else [])"
  by simp

lemma fileStatus_subseq_mono:
  assumes "flags_le d1 d2"
  shows "subseq (fileStatus d1) (fileStatus d2)"
proof -
  from assms have f:
    "isNew d1 \<longrightarrow> isNew d2" "isModified d1 \<longrightarrow> isModified d2"
    "isRenamed d1 \<longrightarrow> isRenamed d2" "isIgnored d1 \<longrightarrow> isIgnored d2"
    "isDeleted d1 \<longrightarrow> isDeleted d2" "isConflicted d1 \<longrightarrow> isConflicted d2"
    "inIndex d1 \<longrightarrow> inIndex d2"
    by (simp_all add: flags_le_def)
  show ?thesis
    unfolding fileStatus_pieces
    by (intro list_emb_append_mono piece_subseq f)
qed

section \<open>The classifier against the specification\<close>

text \<open>
  C1. For every descriptor, \<open>fileStatus\<close> returns the string the specification describes:
  the flags are tested in the fixed order \<open>isNew\<close>, \<open>isModified\<close>, \<open>isRenamed\<close>,
  \<open>isIgnored\<close>, \<open>isDeleted\<close>, \<open>isConflicted\<close>, \<open>inIndex\<close>, and each flag that is true
  appends its character \<open>A\<close>, \<open>M\<close>, \<open>R\<close>, \<open>?\<close>, \<open>D\<close>, \<open>C\<close>, \<open>I\<close>. Equivalently, the
  result is the list of the characters whose flag is true, in that order.
\<close>

theorem fileStatus_refines_spec:
  "fileStatus d = spec_fileStatus d \<and>
   fileStatus d = map snd (filter fst (zip (spec_flags d) spec_codes))"
  by (simp add: fileStatus_def spec_fileStatus_def spec_flags_def spec_codes_def Let_def)

text \<open>
  C3. The copies of the classifier in the sources agree on every descriptor: the ones
  at lines 280 and 447 of \<open>src/src/index.js\<close> and the one in \<open>src/unnamed/part_000\<close>
  return the same string as the one at line 53 of \<open>src/src/index.js\<close>.
\<close>

theorem fileStatus_copies_equal:
  "fileStatus_280 d = fileStatus d \<and> fileStatus_447 d = fileStatus d \<and>
   fileStatus_part_000 d = fileStatus d"
  by (simp only: fileStatus_copies)

section \<open>Fixed examples\<close>

text \<open>
  C4. For the descriptor in which all seven flags are true, whatever its path,
  \<open>fileStatus\<close> returns exactly the string \<open>AMR?DCI\<close>.
\<close>

theorem fileStatus_all_true:
  "fileStatus \<lparr>path = p, isNew = True, isModified = True, isRenamed = True, isIgnored = True,
     isDeleted = True, isConflicted = True, inIndex = True\<rparr> = ''AMR?DCI''"
  by (simp add: fileStatus_def)

text \<open>
  C5. For the descriptor with \<open>isNew\<close>, \<open>isModified\<close> and \<open>inIndex\<close> true and the other
  four flags false, whatever its path, \<open>fileStatus\<close> returns exactly \<open>AMI\<close>: the order of
  the tests, not the alphabetical order \<open>AIM\<close>.
\<close>

theorem fileStatus_new_modified_index:
  "fileStatus \<lparr>path = p, isNew = True, isModified = True, isRenamed = False, isIgnored = False,
     isDeleted = False, isConflicted = False, inIndex = True\<rparr> = ''AMI''"
  by (simp add: fileStatus_def)

text \<open>
  C6. For every descriptor in which exactly one of the seven flags is true, \<open>fileStatus\<close>
  returns a string of length one, and that string is the code of the flag that is true:
  \<open>A\<close> for \<open>isNew\<close>, \<open>M\<close> for \<open>isModified\<close>, \<open>R\<close> for \<open>isRenamed\<close>, \<open>?\<close> for
  \<open>isIgnored\<close>, \<open>D\<close> for \<open>isDeleted\<close>, \<open>C\<close> for \<open>isConflicted\<close>, \<open>I\<close> for \<open>inIndex\<close>.
\<close>

theorem fileStatus_single_flag:
  assumes "true_flag_count d = 1"
  shows "length (fileStatus d) = 1 \<and>
     (isNew d \<longrightarrow> fileStatus d = ''A'') \<and>
     (isModified d \<longrightarrow> fileStatus d = ''M'') \<and>
     (isRenamed d \<longrightarrow> fileStatus d = ''R'') \<and>
     (isIgnored d \<longrightarrow> fileStatus d = ''?'') \<and>
     (isDeleted d \<longrightarrow> fileStatus d = ''D'') \<and>
     (isConflicted d \<longrightarrow> fileStatus d = ''C'') \<and>
     (inIndex d \<longrightarrow> fileStatus d = ''I'')"
  using assms
  by (cases "isNew d"; cases "isModified d"; cases "isRenamed d"; cases "isIgnored d";
      cases "isDeleted d"; cases "isConflicted d"; cases "inIndex d")
     (simp_all add: fileStatus_pieces true_flag_count_def spec_flags_def)

theorem fileStatus_single_flag_witness:
  "true_flag_count ((no_flags ''a'')\<lparr>isNew := True\<rparr>) = 1 \<and>
     fileStatus ((no_flags ''a'')\<lparr>isNew := True\<rparr>) = ''A'' \<and>
   true_flag_count ((no_flags ''b'')\<lparr>isModified := True\<rparr>) = 1 \<and>
     fileStatus ((no_flags ''b'')\<lparr>isModified := True\<rparr>) = ''M'' \<and>
   true_flag_count ((no_flags ''c'')\<lparr>isRenamed := True\<rparr>) = 1 \<and>
     fileStatus ((no_flags ''c'')\<lparr>isRenamed := True\<rparr>) = ''R'' \<and>
   true_flag_count ((no_flags ''d'')\<lparr>isIgnored := True\<rparr>) = 1 \<and>
     fileStatus ((no_flags ''d'')\<lparr>isIgnored := True\<rparr>) = ''?'' \<and>
   true_flag_count ((no_flags ''e'')\<lparr>isDeleted := True\<rparr>) = 1 \<and>
     fileStatus ((no_flags ''e'')\<lparr>isDeleted := True\<rparr>) = ''D'' \<and>
   true_flag_count ((no_flags ''f'')\<lparr>isConflicted := True\<rparr>) = 1 \<and>
     fileStatus ((no_flags ''f'')\<lparr>isConflicted := True\<rparr>) = ''C'' \<and>
   true_flag_count ((no_flags ''g'')\<lparr>inIndex := True\<rparr>) = 1 \<and>
     fileStatus ((no_flags ''g'')\<lparr>inIndex := True\<rparr>) = ''I''"
proof -
  have n: "true_flag_count ((no_flags p)\<lparr>isNew := True\<rparr>) = 1"
    "true_flag_count ((no_flags p)\<lparr>isModified := True\<rparr>) = 1"
    "true_flag_count ((no_flags p)\<lparr>isRenamed := True\<rparr>) = 1"
    "true_flag_count ((no_flags p)\<lparr>isIgnored := True\<rparr>) = 1"
    "true_flag_count ((no_flags p)\<lparr>isDeleted := True\<rparr>) = 1"
    "true_flag_count ((no_flags p)\<lparr>isConflicted := True\<rparr>) = 1"
    "true_flag_count ((no_flags p)\<lparr>inIndex := True\<rparr>) = 1" for p
    by (simp_all add: true_flag_count_def spec_flags_def no_flags_def)
  show ?thesis
    using fileStatus_single_flag [OF n(1), of "''a''"]
      fileStatus_single_flag [OF n(2), of "''b''"]
      fileStatus_single_flag [OF n(3), of "''c''"]
      fileStatus_single_flag [OF n(4), of "''d''"]
      fileStatus_single_flag [OF n(5), of "''e''"]
      fileStatus_single_flag [OF n(6), of "''f''"]
      fileStatus_single_flag [OF n(7), of "''g''"]
      n [of "''a''"] n [of "''b''"] n [of "''c''"] n [of "''d''"] n [of "''e''"]
      n [of "''f''"] n [of "''g''"]
    by (simp add: no_flags_def)
qed

text \<open>
  C7. For every descriptor in which all seven flags are false, \<open>fileStatus\<close> returns the
  empty string.
\<close>

theorem fileStatus_no_flag:
  assumes "\<not> isNew d" and "\<not> isModified d" and "\<not> isRenamed d" and "\<not> isIgnored d"
    and "\<not> isDeleted d" and "\<not> isConflicted d" and "\<not> inIndex d"
  shows "fileStatus d = ''''"
  using assms by (simp add: fileStatus_def)

theorem fileStatus_no_flag_witness:
  "\<not> isNew (no_flags ''README.md'') \<and> \<not> isModified (no_flags ''README.md'') \<and>
   \<not> isRenamed (no_flags ''README.md'') \<and> \<not> isIgnored (no_flags ''README.md'') \<and>
   \<not> isDeleted (no_flags ''README.md'') \<and> \<not> isConflicted (no_flags ''README.md'') \<and>
   \<not> inIndex (no_flags ''README.md'') \<and> fileStatus (no_flags ''README.md'') = ''''"
proof -
  have h: "\<not> isNew (no_flags ''README.md'')" "\<not> isModified (no_flags ''README.md'')"
    "\<not> isRenamed (no_flags ''README.md'')" "\<not> isIgnored (no_flags ''README.md'')"
    "\<not> isDeleted (no_flags ''README.md'')" "\<not> isConflicted (no_flags ''README.md'')"
    "\<not> inIndex (no_flags ''README.md'')"
    by (simp_all add: no_flags_def)
  from fileStatus_no_flag [OF h] h show ?thesis by simp
qed

section \<open>Totality and determinism\<close>

text \<open>Calling a flag method of a descriptor's object returns the flag and nothing else.\<close>

lemma call_method_descriptor:
  "call_method (descriptor_object d) ''isNew'' st = (Inr (Boolean (isNew d)), st)"
  "call_method (descriptor_object d) ''isModified'' st = (Inr (Boolean (isModified d)), st)"
  "call_method (descriptor_object d) ''isRenamed'' st = (Inr (Boolean (isRenamed d)), st)"
  "call_method (descriptor_object d) ''isIgnored'' st = (Inr (Boolean (isIgnored d)), st)"
  "call_method (descriptor_object d) ''isDeleted'' st = (Inr (Boolean (isDeleted d)), st)"
  "call_method (descriptor_object d) ''isConflicted'' st = (Inr (Boolean (isConflicted d)), st)"
  "call_method (descriptor_object d) ''inIndex'' st = (Inr (Boolean (inIndex d)), st)"
  by (simp_all add: descriptor_object_def getter_def)

text \<open>
  The error branches of the model are live. An argument that is not an object throws at
  the first call; an object that lacks a method throws at that method's call, after the
  earlier methods have run; an error thrown by a method of the engine comes out unchanged;
  and a method that writes to the state leaves its mark on the state \<open>fileStatus\<close> returns.
\<close>

lemma fileStatus_js_not_an_object:
  "fileStatus_js Undefined st = (Inl TypeError, st)"
  "fileStatus_js Null st = (Inl TypeError, st)"
  "fileStatus_js (String ''src/index.js'') st = (Inl TypeError, st)"
  by (simp_all add: fileStatus_js_def js_bind_def Let_def)

lemma fileStatus_js_missing_method:
  "fileStatus_js (Object [(''isNew'', getter (Boolean True))]) st = (Inl TypeError, st)"
  by (simp add: fileStatus_js_def js_bind_def getter_def Let_def)

lemma fileStatus_js_engine_error:
  "fileStatus_js (Object [(''isNew'', Function (\<lambda>st. (Inl (EngineError ''closed''), st)))]) st
     = (Inl (EngineError ''closed''), st)"
  by (simp add: fileStatus_js_def js_bind_def Let_def)

lemma fileStatus_js_effect_of_method:
  "fileStatus_js (Object [(''isNew'', Function (\<lambda>st. (Inr (Number 1), ''called'' # st)))]) []
     = (Inl TypeError, [''called''])"
  by (simp add: fileStatus_js_def js_bind_def Let_def)

text \<open>
  C8. \<open>fileStatus\<close> is total over the descriptors: for every descriptor, that is for
  every path and each of the \<open>2^7\<close> assignments of the flags, and from every state of the
  process, the run of lines 53-78 on the descriptor's object ends, throws nothing
  (\<open>Inr\<close>), returns a string, which is the string \<open>fileStatus\<close> assigns to the descriptor,
  and leaves the state of the process as it found it.
\<close>

theorem fileStatus_total:
  "fileStatus_js (descriptor_object d) st = (Inr (fileStatus d), st)"
  by (simp add: fileStatus_js_def fileStatus_def Let_def js_bind_def call_method_descriptor
      js_return_def)

text \<open>
  C9. \<open>fileStatus\<close> is deterministic. Two applications to the same descriptor return the
  same outcome whatever the two states of the process are when they run; and classifying
  a descriptor twice in a row, the second run starting from the state the first one left,
  gives two equal strings.
\<close>

theorem fileStatus_deterministic:
  "fst (fileStatus_js (descriptor_object d) st1) = fst (fileStatus_js (descriptor_object d) st2) \<and>
   js_bind (fileStatus_js (descriptor_object d)) (\<lambda>first.
     js_bind (fileStatus_js (descriptor_object d)) (\<lambda>second.
       js_return (first = second))) st = (Inr True, st)"
  by (simp add: fileStatus_js_def Let_def js_bind_def call_method_descriptor js_return_def)

section \<open>Monotonicity\<close>

text \<open>
  C10. \<open>fileStatus\<close> is monotone with respect to flag inclusion: if every flag true in
  \<open>d1\<close> is true in \<open>d2\<close>, then \<open>fileStatus d1\<close> is a subsequence of \<open>fileStatus d2\<close>. For
  every descriptor the result is a subsequence of \<open>AMR?DCI\<close>, no character occurs twice
  in it, and its length is the number of flags that are true.
\<close>

theorem fileStatus_monotone:
  "(flags_le d1 d2 \<longrightarrow> subseq (fileStatus d1) (fileStatus d2)) \<and>
   subseq (fileStatus d) ''AMR?DCI'' \<and>
   distinct (fileStatus d) \<and>
   length (fileStatus d) = true_flag_count d"
proof -
  have "flags_le d1 d2 \<longrightarrow> subseq (fileStatus d1) (fileStatus d2)"
    by (simp add: fileStatus_subseq_mono)
  moreover have "subseq (fileStatus d) ''AMR?DCI''"
    by (simp add: fileStatus_pieces)
  moreover have "distinct (fileStatus d)"
    by (simp add: fileStatus_pieces)
  moreover have "length (fileStatus d) = true_flag_count d"
    by (simp add: fileStatus_pieces true_flag_count_def spec_flags_def)
  ultimately show ?thesis by simp
qed

theorem fileStatus_monotone_witness:
  "flags_le ((no_flags ''a.txt'')\<lparr>isModified := True\<rparr>)
     ((no_flags ''a.txt'')\<lparr>isNew := True, isModified := True, inIndex := True\<rparr>) \<and>
   fileStatus ((no_flags ''a.txt'')\<lparr>isModified := True\<rparr>) = ''M'' \<and>
   fileStatus ((no_flags ''a.txt'')\<lparr>isNew := True, isModified := True, inIndex := True\<rparr>)
     = ''AMI'' \<and>
   subseq (fileStatus ((no_flags ''a.txt'')\<lparr>isModified := True\<rparr>))
     (fileStatus ((no_flags ''a.txt'')\<lparr>isNew := True, isModified := True, inIndex := True\<rparr>)) \<and>
   subseq
     (fileStatus ((no_flags ''a.txt'')\<lparr>isNew := True, isModified := True, inIndex := True\<rparr>))
     ''AMR?DCI'' \<and>
   distinct
     (fileStatus ((no_flags ''a.txt'')\<lparr>isNew := True, isModified := True, inIndex := True\<rparr>)) \<and>
   true_flag_count ((no_flags ''a.txt'')\<lparr>isNew := True, isModified := True, inIndex := True\<rparr>)
     = 3 \<and>
   length
     (fileStatus ((no_flags ''a.txt'')\<lparr>isNew := True, isModified := True, inIndex := True\<rparr>))
     = 3"
  using fileStatus_monotone [of "(no_flags ''a.txt'')\<lparr>isModified := True\<rparr>"
      "(no_flags ''a.txt'')\<lparr>isNew := True, isModified := True, inIndex := True\<rparr>"
      "(no_flags ''a.txt'')\<lparr>isNew := True, isModified := True, inIndex := True\<rparr>"]
  by (simp add: flags_le_def no_flags_def fileStatus_def true_flag_count_def spec_flags_def)

section \<open>The status report in the engine's order\<close>

text \<open>
  C2. When the engine's scan yields the descriptors \<open>fs\<close>, \<open>status\<close> returns one entry per
  descriptor, in the same order: the entry at position \<open>i\<close> carries the path of the
  descriptor at position \<open>i\<close> and the classifier's string for that descriptor. Nothing is
  sorted, dropped or added. The function of \<open>src/unnamed/part_000\<close> returns the same list.
\<close>

theorem status_maps_in_order:
  assumes "getStatus repo = Inr fs"
  shows "\<exists>out. status repo = Inr out \<and> status_part_000 repo = Inr out \<and>
           out = map (\<lambda>f. \<lparr>entry_path = path f, entry_status = fileStatus f\<rparr>) fs \<and>
           length out = length fs \<and>
           (\<forall>i<length fs. entry_path (out ! i) = path (fs ! i) \<and>
                           entry_status (out ! i) = fileStatus (fs ! i))"
  using assms by (simp add: status_def status_part_000_def fileStatus_copies)

theorem status_maps_in_order_witness:
  "getStatus (\<lparr>getStatus = Inr [(no_flags ''src/index.js'')\<lparr>isNew := True, inIndex := True\<rparr>,
       (no_flags ''README.md'')\<lparr>isModified := True\<rparr>,
       (no_flags ''.env'')\<lparr>isIgnored := True\<rparr>]\<rparr> :: unit Repository)
     = Inr [(no_flags ''src/index.js'')\<lparr>isNew := True, inIndex := True\<rparr>,
       (no_flags ''README.md'')\<lparr>isModified := True\<rparr>,
       (no_flags ''.env'')\<lparr>isIgnored := True\<rparr>] \<and>
   status (\<lparr>getStatus = Inr [(no_flags ''src/index.js'')\<lparr>isNew := True, inIndex := True\<rparr>,
       (no_flags ''README.md'')\<lparr>isModified := True\<rparr>,
       (no_flags ''.env'')\<lparr>isIgnored := True\<rparr>]\<rparr> :: unit Repository)
     = Inr [\<lparr>entry_path = ''src/index.js'', entry_status = ''AI''\<rparr>,
         \<lparr>entry_path = ''README.md'', entry_status = ''M''\<rparr>,
         \<lparr>entry_path = ''.env'', entry_status = ''?''\<rparr>] \<and>
   status_part_000
       (\<lparr>getStatus = Inr [(no_flags ''src/index.js'')\<lparr>isNew := True, inIndex := True\<rparr>,
       (no_flags ''README.md'')\<lparr>isModified := True\<rparr>,
       (no_flags ''.env'')\<lparr>isIgnored := True\<rparr>]\<rparr> :: unit Repository)
     = Inr [\<lparr>entry_path = ''src/index.js'', entry_status = ''AI''\<rparr>,
         \<lparr>entry_path = ''README.md'', entry_status = ''M''\<rparr>,
         \<lparr>entry_path = ''.env'', entry_status = ''?''\<rparr>]"
proof -
  let ?fs = "[(no_flags ''src/index.js'')\<lparr>isNew := True, inIndex := True\<rparr>,
       (no_flags ''README.md'')\<lparr>isModified := True\<rparr>,
       (no_flags ''.env'')\<lparr>isIgnored := True\<rparr>]"
  let ?repo = "\<lparr>getStatus = Inr ?fs\<rparr> :: unit Repository"
  have h: "getStatus ?repo = Inr ?fs" by simp
  from status_maps_in_order [OF h] show ?thesis
    by (auto simp add: no_flags_def fileStatus_def)
qed

end
